theory Spec2Isabelle
  imports Complex_Main "HOL-Library.Word"
begin

unbundle bit_operations_syntax

section \<open>SSD1681 e-paper driver: data model\<close>

text \<open>
  The driver (\<^verbatim>\<open>ssd1681_driver.py\<close>) keeps two bit-packed planes, maps logical pixel
  coordinates to plane offsets through one of four orientations, renders an 8x8 font and
  talks to the controller over SPI. Python integers are modelled as \<^typ>\<open>int\<close>, the
  elements of a \<^verbatim>\<open>bytearray\<close> as 8-bit words, and every exception the code can raise
  as a value of \<open>error\<close>.
\<close>

type_synonym byte = "8 word"

datatype error = IndexError | KeyError

subsection \<open>Module constants\<close>

definition CMD_SW_RESET :: int where "CMD_SW_RESET = 0x12"
definition CMD_GATE_DRIVING_VOLTAGE :: int where "CMD_GATE_DRIVING_VOLTAGE = 0x01"
definition CMD_DATA_ENTRY_MODE :: int where "CMD_DATA_ENTRY_MODE = 0x11"
definition CMD_SET_RAM_X_RANGE :: int where "CMD_SET_RAM_X_RANGE = 0x44"
definition CMD_SET_RAM_Y_RANGE :: int where "CMD_SET_RAM_Y_RANGE = 0x45"
definition CMD_SET_RAM_X_COUNTER :: int where "CMD_SET_RAM_X_COUNTER = 0x4E"
definition CMD_SET_RAM_Y_COUNTER :: int where "CMD_SET_RAM_Y_COUNTER = 0x4F"
definition CMD_WRITE_RAM_BW :: int where "CMD_WRITE_RAM_BW = 0x24"
definition CMD_WRITE_RAM_RED :: int where "CMD_WRITE_RAM_RED = 0x26"
definition CMD_LOAD_LUT :: int where "CMD_LOAD_LUT = 0x22"
definition CMD_ACTIVATE_DISPLAY :: int where "CMD_ACTIVATE_DISPLAY = 0x20"
definition CMD_DISPLAY_UPDATE :: int where "CMD_DISPLAY_UPDATE = 0x22"
definition CMD_MASTER_ACTIVATE :: int where "CMD_MASTER_ACTIVATE = 0x20"
definition CMD_DEEP_SLEEP :: int where "CMD_DEEP_SLEEP = 0x10"
definition CMD_SOFT_START :: int where "CMD_SOFT_START = 0x0C"

definition UPDATE_MODE_FULL :: int where "UPDATE_MODE_FULL = 0xF7"
definition DATA_ENTRY_MODE_DEFAULT :: int where "DATA_ENTRY_MODE_DEFAULT = 0x03"

definition COLOR_WHITE :: int where "COLOR_WHITE = 0"
definition COLOR_BLACK :: int where "COLOR_BLACK = 1"
definition COLOR_RED :: int where "COLOR_RED = 2"

definition ORIENTATION_0 :: int where "ORIENTATION_0 = 0"
definition ORIENTATION_90 :: int where "ORIENTATION_90 = 1"
definition ORIENTATION_180 :: int where "ORIENTATION_180 = 2"
definition ORIENTATION_270 :: int where "ORIENTATION_270 = 3"

subsection \<open>The board and the driver object\<close>

text \<open>
  \<open>board\<close> is the state of the collaborators the driver is handed: the SPI bus (the
  log of its writes, each with the levels of chip-select and data/command at that moment),
  the three output pins, the busy line (its level at every millisecond) and the
  millisecond clock behind \<^verbatim>\<open>time.ticks_ms\<close> and \<^verbatim>\<open>time.sleep_ms\<close>.
  \<open>ssd1681\<close> adds the attributes \<^verbatim>\<open>__init__\<close> sets.
\<close>

type_synonym spi_frame = "int \<times> int \<times> byte list"

record board =
  spi :: "spi_frame list"
  cs :: int
  dc :: int
  rst :: int
  busy :: "nat \<Rightarrow> bool"
  ticks :: nat

record ssd1681 = board +
  width :: int
  height :: int
  orientation :: int
  buffer_size :: int
  buffer :: "byte list"
  red_buffer :: "byte list"

text \<open>The result of a method that mutates the object and may raise: the exception, if
  any, and the object as the call left it (what was written before a raise stays written).\<close>

type_synonym 'a raised = "error option \<times> 'a"

definition and_then :: "'a raised \<Rightarrow> ('a \<Rightarrow> 'a raised) \<Rightarrow> 'a raised" where
  "and_then r f = (case r of (None, s) \<Rightarrow> f s | (Some e, s) \<Rightarrow> (Some e, s))"

fun for_each :: "'i list \<Rightarrow> ('i \<Rightarrow> 'a \<Rightarrow> 'a raised) \<Rightarrow> 'a \<Rightarrow> 'a raised" where
  "for_each [] body s = (None, s)"
| "for_each (i # rest) body s = and_then (body i s) (for_each rest body)"

text \<open>\<^verbatim>\<open>range(n)\<close>: empty when \<open>n \<le> 0\<close>.\<close>

definition py_range :: "int \<Rightarrow> int list" where
  "py_range n = map int [0..<nat n]"

subsection \<open>Sequence indexing\<close>

text \<open>Reading and writing \<^verbatim>\<open>xs[i]\<close>: a negative index counts from the end, an index
  outside the sequence raises \<^verbatim>\<open>IndexError\<close>.\<close>

definition norm_index :: "'a list \<Rightarrow> int \<Rightarrow> int" where
  "norm_index xs i = (if i < 0 then i + int (length xs) else i)"

definition getitem :: "'a list \<Rightarrow> int \<Rightarrow> error + 'a" where
  "getitem xs i =
     (if 0 \<le> norm_index xs i \<and> norm_index xs i < int (length xs)
      then Inr (xs ! nat (norm_index xs i)) else Inl IndexError)"

definition setitem :: "'a list \<Rightarrow> int \<Rightarrow> 'a \<Rightarrow> error + 'a list" where
  "setitem xs i v =
     (if 0 \<le> norm_index xs i \<and> norm_index xs i < int (length xs)
      then Inr (xs[nat (norm_index xs i) := v]) else Inl IndexError)"

text \<open>\<^verbatim>\<open>buf[i] |= m\<close> and \<^verbatim>\<open>buf[i] &= ~m\<close> on a bytearray: read, combine, store. The
  mask is between 1 and 0x80, so both results are bytes again.\<close>

definition ior_item :: "byte list \<Rightarrow> int \<Rightarrow> byte \<Rightarrow> error + byte list" where
  "ior_item buf i m = (case getitem buf i of Inl e \<Rightarrow> Inl e | Inr b \<Rightarrow> setitem buf i (b OR m))"

definition iand_not_item :: "byte list \<Rightarrow> int \<Rightarrow> byte \<Rightarrow> error + byte list" where
  "iand_not_item buf i m =
     (case getitem buf i of Inl e \<Rightarrow> Inl e | Inr b \<Rightarrow> setitem buf i (b AND NOT m))"

section \<open>Coordinate mapping and the pixel planes\<close>

text \<open>The orientation branch of \<^verbatim>\<open>_map_coordinates\<close>: the physical \<open>(hw_x, hw_y)\<close>.\<close>

definition hw_coordinates :: "ssd1681 \<Rightarrow> int \<Rightarrow> int \<Rightarrow> int \<times> int" where
  "hw_coordinates s x y =
     (if orientation s = ORIENTATION_0 then (width s - 1 - x, height s - 1 - y)
      else if orientation s = ORIENTATION_90 then (y, width s - 1 - x)
      else if orientation s = ORIENTATION_180 then (x, y)
      else if orientation s = ORIENTATION_270 then (height s - 1 - y, x)
      else (width s - 1 - x, height s - 1 - y))"

text \<open>\<^verbatim>\<open>_map_coordinates\<close>: row-major byte index and bit index of the pixel.\<close>

definition map_coordinates :: "ssd1681 \<Rightarrow> int \<Rightarrow> int \<Rightarrow> int \<times> int" where
  "map_coordinates s x y =
     (case hw_coordinates s x y of
        (hw_x, hw_y) \<Rightarrow> ((hw_y * width s + hw_x) div 8, hw_x mod 8))"

text \<open>\<^verbatim>\<open>0x80 >> bit_index\<close>, as a byte.\<close>

definition bit_mask :: "int \<Rightarrow> byte" where
  "bit_mask bit_index = drop_bit (nat bit_index) (0x80 :: byte)"

text \<open>\<^verbatim>\<open>_set_pixel_buffer\<close>, on the bytearray it is handed; the result is that bytearray
  after the call.\<close>

definition set_pixel_buffer ::
  "ssd1681 \<Rightarrow> int \<Rightarrow> int \<Rightarrow> byte list \<Rightarrow> bool \<Rightarrow> error + byte list" where
  "set_pixel_buffer s x y buf val =
     (if \<not> (0 \<le> x \<and> x < width s \<and> 0 \<le> y \<and> y < height s) then Inr buf
      else case map_coordinates s x y of
        (byte_index, bit_index) \<Rightarrow>
          if val then ior_item buf byte_index (bit_mask bit_index)
          else iand_not_item buf byte_index (bit_mask bit_index))"

text \<open>The two call shapes of \<^verbatim>\<open>pixel\<close>: \<^verbatim>\<open>self._set_pixel_buffer(x, y, self.buffer, v)\<close>
  and the same on \<^verbatim>\<open>self.red_buffer\<close>.\<close>

definition set_main :: "int \<Rightarrow> int \<Rightarrow> bool \<Rightarrow> ssd1681 \<Rightarrow> ssd1681 raised" where
  "set_main x y val s =
     (case set_pixel_buffer s x y (buffer s) val of
        Inl e \<Rightarrow> (Some e, s) | Inr b \<Rightarrow> (None, s\<lparr>buffer := b\<rparr>))"

definition set_red :: "int \<Rightarrow> int \<Rightarrow> bool \<Rightarrow> ssd1681 \<Rightarrow> ssd1681 raised" where
  "set_red x y val s =
     (case set_pixel_buffer s x y (red_buffer s) val of
        Inl e \<Rightarrow> (Some e, s) | Inr b \<Rightarrow> (None, s\<lparr>red_buffer := b\<rparr>))"

text \<open>\<^verbatim>\<open>pixel\<close>. The coordinates are Python ints, on which \<^verbatim>\<open>int(x)\<close> is the identity.\<close>

definition pixel :: "ssd1681 \<Rightarrow> int \<Rightarrow> int \<Rightarrow> int \<Rightarrow> ssd1681 raised" where
  "pixel s x y color =
     (if color = COLOR_WHITE then and_then (set_main x y True s) (set_red x y False)
      else if color = COLOR_BLACK then and_then (set_main x y False s) (set_red x y False)
      else if color = COLOR_RED then and_then (set_main x y True s) (set_red x y True)
      else (None, s))"

text \<open>\<^verbatim>\<open>clear\<close>: two loops over \<^verbatim>\<open>range(self._buffer_size)\<close>.\<close>

definition store_main :: "byte \<Rightarrow> int \<Rightarrow> ssd1681 \<Rightarrow> ssd1681 raised" where
  "store_main v i s =
     (case setitem (buffer s) i v of
        Inl e \<Rightarrow> (Some e, s) | Inr b \<Rightarrow> (None, s\<lparr>buffer := b\<rparr>))"

definition store_red :: "byte \<Rightarrow> int \<Rightarrow> ssd1681 \<Rightarrow> ssd1681 raised" where
  "store_red v i s =
     (case setitem (red_buffer s) i v of
        Inl e \<Rightarrow> (Some e, s) | Inr b \<Rightarrow> (None, s\<lparr>red_buffer := b\<rparr>))"

definition clear :: "ssd1681 \<Rightarrow> ssd1681 raised" where
  "clear s =
     and_then (for_each (py_range (buffer_size s)) (store_main 0xFF) s)
       (\<lambda>s1. for_each (py_range (buffer_size s1)) (store_red 0x00) s1)"

text \<open>Reading a plane bit back: the bit \<open>bit_index\<close> (most significant first) of byte
  \<open>byte_index\<close>. The driver has no reader; this is the read the controller does.\<close>

definition plane_bit :: "byte list \<Rightarrow> int \<times> int \<Rightarrow> bool" where
  "plane_bit buf pos = (buf ! nat (fst pos) AND bit_mask (snd pos) \<noteq> 0)"

section \<open>Glyph rendering\<close>







section \<open>The controller protocol\<close>

text \<open>
  The clock: \<^verbatim>\<open>time.sleep_ms(n)\<close> advances it by \<open>n\<close> milliseconds and nothing else
  does; \<^verbatim>\<open>time.ticks_ms()\<close> reads it modulo the tick period, and
  \<^verbatim>\<open>time.ticks_diff\<close> is the signed difference of two readings in that ring, as
  MicroPython defines them.
\<close>

definition TICKS_PERIOD :: int where "TICKS_PERIOD = 2 ^ 30"

definition sleep_ms :: "nat \<Rightarrow> ssd1681 \<Rightarrow> ssd1681" where
  "sleep_ms n s = s\<lparr>ticks := ticks s + n\<rparr>"

definition ticks_ms :: "ssd1681 \<Rightarrow> int" where
  "ticks_ms s = int (ticks s) mod TICKS_PERIOD"

definition ticks_diff :: "int \<Rightarrow> int \<Rightarrow> int" where
  "ticks_diff t1 t0 =
     (t1 - t0 + TICKS_PERIOD div 2) mod TICKS_PERIOD - TICKS_PERIOD div 2"

text \<open>\<^verbatim>\<open>self.busy.value()\<close>: the level of the busy line now.\<close>

definition busy_value :: "ssd1681 \<Rightarrow> bool" where
  "busy_value s = busy s (ticks s)"

text \<open>\<^verbatim>\<open>bytearray(list)\<close> keeps the low eight bits of each integer, as MicroPython's
  bytearray does.\<close>

definition bytearray :: "int list \<Rightarrow> byte list" where
  "bytearray xs = map word_of_int xs"

definition spi_write :: "byte list \<Rightarrow> ssd1681 \<Rightarrow> ssd1681" where
  "spi_write bs s = s\<lparr>spi := spi s @ [(cs s, dc s, bs)]\<rparr>"

text \<open>What \<^verbatim>\<open>_data\<close> is handed: a list or tuple, a bytes object or bytearray, or a
  single integer.\<close>

datatype payload = Ints "int list" | Bytes "byte list" | Single int

definition data :: "ssd1681 \<Rightarrow> payload \<Rightarrow> ssd1681" where
  "data s d =
     (let s1 = s\<lparr>dc := 1\<rparr>;
          s2 = s1\<lparr>cs := 0\<rparr>;
          s3 = (case d of
                  Ints xs \<Rightarrow> spi_write (bytearray xs) s2
                | Bytes bs \<Rightarrow> spi_write bs s2
                | Single v \<Rightarrow> spi_write (bytearray [v]) s2);
          s4 = s3\<lparr>cs := 1\<rparr>
      in sleep_ms 1 s4)"

definition command :: "ssd1681 \<Rightarrow> int \<Rightarrow> payload option \<Rightarrow> ssd1681" where
  "command s cmd d =
     (let s1 = s\<lparr>dc := 0\<rparr>;
          s2 = s1\<lparr>cs := 0\<rparr>;
          s3 = spi_write (bytearray [cmd]) s2;
          s4 = s3\<lparr>cs := 1\<rparr>;
          s5 = sleep_ms 1 s4
      in case d of None \<Rightarrow> s5 | Some p \<Rightarrow> data s5 p)"

text \<open>The loop of \<^verbatim>\<open>_wait_busy\<close>; \<open>None\<close> is a loop that never ends.\<close>

partial_function (option) wait_busy_loop :: "ssd1681 \<Rightarrow> int \<Rightarrow> int \<Rightarrow> ssd1681 option" where
  "wait_busy_loop s start timeout_ms =
     (if busy_value s \<and> ticks_diff (ticks_ms s) start < timeout_ms
      then wait_busy_loop (sleep_ms 50 s) start timeout_ms
      else Some s)"

definition wait_busy :: "ssd1681 \<Rightarrow> int \<Rightarrow> (bool \<times> ssd1681) option" where
  "wait_busy s timeout_ms =
     (let start = ticks_ms s
      in map_option (\<lambda>s'. (ticks_diff (ticks_ms s') start < timeout_ms, s'))
           (wait_busy_loop s start timeout_ms))"

text \<open>\<^verbatim>\<open>self._wait_busy()\<close> as a statement: default timeout, result dropped.\<close>

definition wait_ready :: "ssd1681 \<Rightarrow> ssd1681 option" where
  "wait_ready s = map_option snd (wait_busy s 15000)"

definition reset_ram_address :: "ssd1681 \<Rightarrow> ssd1681" where
  "reset_ram_address s =
     (let s1 = command s CMD_SET_RAM_X_COUNTER (Some (Ints [0x00]))
      in command s1 CMD_SET_RAM_Y_COUNTER (Some (Ints [0x00, 0x00])))"

definition reset :: "ssd1681 \<Rightarrow> ssd1681" where
  "reset s =
     (let s1 = sleep_ms 200 (s\<lparr>rst := 1\<rparr>);
          s2 = sleep_ms 10 (s1\<lparr>rst := 0\<rparr>)
      in sleep_ms 200 (s2\<lparr>rst := 1\<rparr>))"

definition power_on_sequence :: "ssd1681 \<Rightarrow> ssd1681 option" where
  "power_on_sequence s =
     Option.bind (wait_ready (reset s)) (\<lambda>s1. wait_ready (command s1 CMD_SW_RESET None))"

definition configure_ram :: "ssd1681 \<Rightarrow> ssd1681" where
  "configure_ram s =
     (let s1 = command s CMD_GATE_DRIVING_VOLTAGE (Some (Ints [0xC7, 0x00, 0x00]));
          s2 = command s1 CMD_DATA_ENTRY_MODE (Some (Ints [DATA_ENTRY_MODE_DEFAULT]));
          x_end = width s2 div 8 - 1;
          s3 = command s2 CMD_SET_RAM_X_RANGE (Some (Ints [0x00, x_end]));
          y_end_low = (height s3 - 1) AND 0xFF;
          y_end_high = drop_bit 8 (height s3 - 1) AND 0xFF;
          s4 = command s3 CMD_SET_RAM_Y_RANGE (Some (Ints [0x00, 0x00, y_end_low, y_end_high]))
      in reset_ram_address s4)"

definition load_lut :: "ssd1681 \<Rightarrow> ssd1681 option" where
  "load_lut s =
     (let s1 = command s CMD_LOAD_LUT (Some (Ints [0xB1]));
          s2 = command s1 CMD_ACTIVATE_DISPLAY None
      in wait_ready s2)"

definition init :: "ssd1681 \<Rightarrow> ssd1681 option" where
  "init s =
     Option.bind (power_on_sequence s) (\<lambda>s1.
       Option.bind (load_lut (configure_ram s1)) wait_ready)"

definition show_op :: "ssd1681 \<Rightarrow> ssd1681 option" where
  "show_op s =
     (let s1 = reset_ram_address s;
          s2 = command s1 CMD_WRITE_RAM_BW (Some (Bytes (buffer s1)));
          s3 = reset_ram_address s2;
          s4 = command s3 CMD_WRITE_RAM_RED (Some (Bytes (red_buffer s3)));
          s5 = command s4 CMD_SOFT_START (Some (Ints [0xD7, 0xD6, 0x9D]));
          s6 = command s5 CMD_DISPLAY_UPDATE (Some (Ints [UPDATE_MODE_FULL]));
          s7 = command s6 CMD_MASTER_ACTIVATE None
      in wait_ready s7)"

definition sleep :: "ssd1681 \<Rightarrow> ssd1681" where
  "sleep s = command s CMD_DEEP_SLEEP (Some (Ints [0x01]))"

text \<open>\<^verbatim>\<open>_init_pins\<close> and \<^verbatim>\<open>__init__\<close>, from the board the pins and the bus belong to.\<close>

definition init_pins :: "ssd1681 \<Rightarrow> ssd1681" where
  "init_pins s = s\<lparr>cs := 1, dc := 0, rst := 1\<rparr>"

definition new_ssd1681 :: "board \<Rightarrow> int \<Rightarrow> int \<Rightarrow> int \<Rightarrow> ssd1681" where
  "new_ssd1681 b w h ori =
     init_pins
       \<lparr>spi = spi b, cs = cs b, dc = dc b, rst = rst b, busy = busy b, ticks = ticks b,
        width = w, height = h, orientation = ori,
        buffer_size = w * h div 8,
        buffer = replicate (nat (w * h div 8)) 0xFF,
        red_buffer = replicate (nat (w * h div 8)) 0x00\<rparr>"

section \<open>Auxiliary notions for the statements\<close>

text \<open>The bytes \<^verbatim>\<open>_data\<close> puts on the bus for a payload.\<close>

definition payload_bytes :: "payload \<Rightarrow> byte list" where
  "payload_bytes d = (case d of Ints xs \<Rightarrow> bytearray xs | Bytes bs \<Rightarrow> bs | Single v \<Rightarrow> bytearray [v])"

text \<open>The attributes of the driver object that are not the board's.\<close>

definition attrs :: "ssd1681 \<Rightarrow> int \<times> int \<times> int \<times> int \<times> byte list \<times> byte list" where
  "attrs s = (width s, height s, orientation s, buffer_size s, buffer s, red_buffer s)"

text \<open>The frames of one \<^verbatim>\<open>_command\<close> call: the opcode with data/command low, then the
  payload with data/command high; chip-select is low during both.\<close>

definition command_frames :: "int \<Rightarrow> payload option \<Rightarrow> spi_frame list" where
  "command_frames cmd d =
     (0, 0, bytearray [cmd]) # (case d of None \<Rightarrow> [] | Some p \<Rightarrow> [(0, 1, payload_bytes p)])"

text \<open>The geometry the orientations assume: the controller's rows are whole bytes, and
  the quarter turns exchange the axes, so they need a square panel.\<close>

definition quarter_turn :: "ssd1681 \<Rightarrow> bool" where
  "quarter_turn s = (orientation s = ORIENTATION_90 \<or> orientation s = ORIENTATION_270)"

definition geometry_ok :: "ssd1681 \<Rightarrow> bool" where
  "geometry_ok s = (8 dvd width s \<and> (quarter_turn s \<longrightarrow> width s = height s))"

text \<open>The canvas, which is also the physical grid: \<open>[0, width) \<times> [0, height)\<close>.\<close>

definition grid :: "ssd1681 \<Rightarrow> (int \<times> int) set" where
  "grid s = {0..<width s} \<times> {0..<height s}"

text \<open>Boards and driver objects to run the operations on: a board whose busy line is
  never asserted, one whose busy line is stuck high, and the default 200x200 panel.\<close>

definition idle_board :: board where
  "idle_board = \<lparr>spi = [], cs = 0, dc = 0, rst = 0, busy = (\<lambda>t. False), ticks = 0\<rparr>"

definition stuck_board :: board where
  "stuck_board = \<lparr>spi = [], cs = 0, dc = 0, rst = 0, busy = (\<lambda>t. True), ticks = 0\<rparr>"

definition panel_200 :: ssd1681 where
  "panel_200 = new_ssd1681 idle_board 200 200 ORIENTATION_0"

definition panel_stuck :: ssd1681 where
  "panel_stuck = new_ssd1681 stuck_board 200 200 ORIENTATION_0"

definition panel_turned :: ssd1681 where
  "panel_turned = new_ssd1681 idle_board 200 200 ORIENTATION_90"







text \<open>
  The payload written to a controller RAM: the data frame that follows the last frame
  carrying the opcode \<open>cmd\<close> on the bus.
\<close>

fun ram_data :: "int \<Rightarrow> spi_frame list \<Rightarrow> byte list option" where
  "ram_data cmd (f # g # rest) =
     (case ram_data cmd (g # rest) of
        Some bytes \<Rightarrow> Some bytes
      | None \<Rightarrow> if f = (0, 0, bytearray [cmd]) \<and> fst g = 0 \<and> fst (snd g) = 1
                then Some (snd (snd g)) else None)"
| "ram_data cmd fs = None"

text \<open>
  The end-to-end scenario of the spec, as the script
  \<^verbatim>\<open>d = SSD1681(..., 200, 200, ORIENTATION_0); d.init(); d.clear(); d.pixel(0, 0, COLOR_RED); d.show()\<close>:
  \<open>None\<close> when it never returns, otherwise the exception (if any) and the object.
\<close>

definition scenario :: "board \<Rightarrow> ssd1681 raised option" where
  "scenario b =
     (case init (new_ssd1681 b 200 200 ORIENTATION_0) of
        None \<Rightarrow> None
      | Some s1 \<Rightarrow>
          (case and_then (clear s1) (\<lambda>s2. pixel s2 0 0 COLOR_RED) of
             (Some e, s3) \<Rightarrow> Some (Some e, s3)
           | (None, s3) \<Rightarrow> map_option (Pair None) (show_op s3)))"

text \<open>What the scenario transmits to the black/white RAM and to the red RAM.\<close>

definition scenario_bw :: "board \<Rightarrow> byte list option" where
  "scenario_bw b =
     (case scenario b of Some (None, s) \<Rightarrow> ram_data CMD_WRITE_RAM_BW (spi s) | _ \<Rightarrow> None)"

definition scenario_red :: "board \<Rightarrow> byte list option" where
  "scenario_red b =
     (case scenario b of Some (None, s) \<Rightarrow> ram_data CMD_WRITE_RAM_RED (spi s) | _ \<Rightarrow> None)"

section \<open>Properties\<close>

lemma and_then_None [simp]: "and_then (None, s) f = f s"
  by (simp add: and_then_def)

lemma and_then_Some [simp]: "and_then (Some e, s) f = (Some e, s)"
  by (simp add: and_then_def)


subsection \<open>The busy-wait loop\<close>

lemma ticks_diff_elapsed:
  assumes "0 \<le> d" "d < TICKS_PERIOD div 2"
  shows "ticks_diff ((c + d) mod TICKS_PERIOD) (c mod TICKS_PERIOD) = d"
proof -
  have "((c + d) mod TICKS_PERIOD - c mod TICKS_PERIOD + TICKS_PERIOD div 2) mod TICKS_PERIOD
        = (d + TICKS_PERIOD div 2) mod TICKS_PERIOD"
  proof -
    have "((c + d) mod TICKS_PERIOD - c mod TICKS_PERIOD) mod TICKS_PERIOD = (c + d - c) mod TICKS_PERIOD"
      by (rule mod_diff_eq)
    then have "((c + d) mod TICKS_PERIOD - c mod TICKS_PERIOD) mod TICKS_PERIOD = d mod TICKS_PERIOD"
      by simp
    then show ?thesis
      by (metis mod_add_left_eq)
  qed
  also have "\<dots> = d + TICKS_PERIOD div 2"
    using assms by (simp add: TICKS_PERIOD_def)
  finally show ?thesis by (simp add: ticks_diff_def)
qed

lemma sleep_ms_fields [simp]:
  "ticks (sleep_ms n s) = ticks s + n" "busy (sleep_ms n s) = busy s"
  by (simp_all add: sleep_ms_def)

lemma wait_busy_loop_returns:
  assumes "timeout_ms \<le> TICKS_PERIOD div 2 - 50"
    and "start = int c0 mod TICKS_PERIOD"
    and "ticks s = c0 + d"
    and "int d < TICKS_PERIOD div 2"
  shows "\<exists>k. wait_busy_loop s start timeout_ms = Some (s\<lparr>ticks := ticks s + 50 * k\<rparr>)
           \<and> (\<forall>j<k. busy s (ticks s + 50 * j) \<and> int (d + 50 * j) < timeout_ms)
           \<and> \<not> (busy s (ticks s + 50 * k) \<and> int (d + 50 * k) < timeout_ms)"
  using assms(3,4)
proof (induction "nat (timeout_ms - int d)" arbitrary: s d rule: less_induct)
  case less
  have diff: "ticks_diff (ticks_ms s) start = int d"
    using ticks_diff_elapsed [of "int d" "int c0"] less.prems assms(2)
    by (simp add: ticks_ms_def)
  show ?case
  proof (cases "busy s (ticks s) \<and> int d < timeout_ms")
    case False
    then have "wait_busy_loop s start timeout_ms = Some s"
      by (subst wait_busy_loop.simps) (auto simp add: diff busy_value_def)
    then show ?thesis using False by (intro exI [of _ 0]) simp
  next
    case True
    let ?s = "sleep_ms 50 s"
    have step: "wait_busy_loop s start timeout_ms = wait_busy_loop ?s start timeout_ms"
      by (subst wait_busy_loop.simps) (use True in \<open>simp add: diff busy_value_def\<close>)
    have "nat (timeout_ms - int (d + 50)) < nat (timeout_ms - int d)"
      using True by simp
    moreover have "ticks ?s = c0 + (d + 50)" using less.prems by simp
    moreover have "int (d + 50) < TICKS_PERIOD div 2" using True assms(1) by simp
    ultimately obtain k where k:
      "wait_busy_loop ?s start timeout_ms = Some (?s\<lparr>ticks := ticks ?s + 50 * k\<rparr>)"
      "\<forall>j<k. busy ?s (ticks ?s + 50 * j) \<and> int (d + 50 + 50 * j) < timeout_ms"
      "\<not> (busy ?s (ticks ?s + 50 * k) \<and> int (d + 50 + 50 * k) < timeout_ms)"
      using less.hyps [of "d + 50" ?s] by blast
    have "wait_busy_loop s start timeout_ms = Some (s\<lparr>ticks := ticks s + 50 * Suc k\<rparr>)"
      using k(1) step by (simp add: sleep_ms_def)
    moreover have "\<forall>j<Suc k. busy s (ticks s + 50 * j) \<and> int (d + 50 * j) < timeout_ms"
    proof (intro allI impI)
      fix j assume "j < Suc k"
      show "busy s (ticks s + 50 * j) \<and> int (d + 50 * j) < timeout_ms"
      proof (cases j)
        case 0
        then show ?thesis using True by simp
      next
        case (Suc i)
        then have "i < k" using \<open>j < Suc k\<close> by simp
        then show ?thesis using k(2) Suc by (simp add: algebra_simps)
      qed
    qed
    moreover have "\<not> (busy s (ticks s + 50 * Suc k) \<and> int (d + 50 * Suc k) < timeout_ms)"
      using k(3) by (simp add: algebra_simps)
    ultimately show ?thesis by blast
  qed
qed

lemma wait_busy_returns:
  assumes "timeout_ms \<le> TICKS_PERIOD div 2 - 50"
  shows "\<exists>k. wait_busy s timeout_ms =
               Some (int (50 * k) < timeout_ms, s\<lparr>ticks := ticks s + 50 * k\<rparr>)
           \<and> (\<forall>j<k. busy s (ticks s + 50 * j) \<and> int (50 * j) < timeout_ms)
           \<and> \<not> (busy s (ticks s + 50 * k) \<and> int (50 * k) < timeout_ms)"
proof -
  have "int (0::nat) < TICKS_PERIOD div 2" by (simp add: TICKS_PERIOD_def)
  from wait_busy_loop_returns [OF assms refl _ this, of s "ticks s"]
  obtain k where k:
    "wait_busy_loop s (ticks_ms s) timeout_ms = Some (s\<lparr>ticks := ticks s + 50 * k\<rparr>)"
    "\<forall>j<k. busy s (ticks s + 50 * j) \<and> int (50 * j) < timeout_ms"
    "\<not> (busy s (ticks s + 50 * k) \<and> int (50 * k) < timeout_ms)"
    by (auto simp add: ticks_ms_def)
  have "k = 0 \<or> int (50 * (k - 1)) < timeout_ms"
    using k(2) by (cases k) auto
  then have "int (50 * k) < TICKS_PERIOD div 2"
    using assms by (cases k) (auto simp add: TICKS_PERIOD_def)
  then have "ticks_diff (ticks_ms (s\<lparr>ticks := ticks s + 50 * k\<rparr>)) (ticks_ms s) = int (50 * k)"
    using ticks_diff_elapsed [of "int (50 * k)" "int (ticks s)"]
    by (simp add: ticks_ms_def)
  then have "wait_busy s timeout_ms =
      Some (int (50 * k) < timeout_ms, s\<lparr>ticks := ticks s + 50 * k\<rparr>)"
    using k(1) by (simp add: wait_busy_def)
  then show ?thesis using k(2,3) by blast
qed

lemma wait_ready_returns: "\<exists>k. wait_ready s = Some (s\<lparr>ticks := ticks s + 50 * k\<rparr>)"
proof -
  have "(15000::int) \<le> TICKS_PERIOD div 2 - 50" by (simp add: TICKS_PERIOD_def)
  from wait_busy_returns [OF this, of s] show ?thesis
    by (auto simp add: wait_ready_def)
qed

subsection \<open>What the protocol operations leave alone\<close>

lemma attrs_sleep_ms [simp]: "attrs (sleep_ms n s) = attrs s"
  by (simp add: attrs_def sleep_ms_def)

lemma spi_sleep_ms [simp]: "spi (sleep_ms n s) = spi s"
  by (simp add: sleep_ms_def)

lemma command_frame:
  "attrs (command s cmd d) = attrs s \<and> busy (command s cmd d) = busy s
   \<and> spi (command s cmd d) = spi s @ command_frames cmd d"
  by (cases d; cases "the d")
     (simp_all add: command_def data_def Let_def spi_write_def sleep_ms_def attrs_def
        command_frames_def payload_bytes_def)

lemma attrs_command [simp]: "attrs (command s cmd d) = attrs s"
  and busy_command [simp]: "busy (command s cmd d) = busy s"
  and spi_command [simp]: "spi (command s cmd d) = spi s @ command_frames cmd d"
  using command_frame [of s cmd d] by simp_all

lemma attrs_reset_ram_address [simp]: "attrs (reset_ram_address s) = attrs s"
  and busy_reset_ram_address [simp]: "busy (reset_ram_address s) = busy s"
  and spi_reset_ram_address [simp]:
    "spi (reset_ram_address s) =
       spi s @ command_frames CMD_SET_RAM_X_COUNTER (Some (Ints [0x00]))
             @ command_frames CMD_SET_RAM_Y_COUNTER (Some (Ints [0x00, 0x00]))"
  by (simp_all add: reset_ram_address_def Let_def)

lemma attrs_reset [simp]: "attrs (reset s) = attrs s"
  by (simp add: reset_def Let_def attrs_def sleep_ms_def)

lemma attrs_configure_ram [simp]: "attrs (configure_ram s) = attrs s"
  by (simp add: configure_ram_def Let_def)

lemma attrs_sleep [simp]: "attrs (sleep s) = attrs s"
  by (simp add: sleep_def)

lemma wait_ready_frame:
  "\<exists>s'. wait_ready s = Some s' \<and> attrs s' = attrs s \<and> spi s' = spi s \<and> busy s' = busy s"
  using wait_ready_returns [of s] by (auto simp add: attrs_def)

lemma power_on_sequence_frame: "\<exists>s'. power_on_sequence s = Some s' \<and> attrs s' = attrs s"
proof -
  obtain s1 where s1: "wait_ready (reset s) = Some s1" "attrs s1 = attrs (reset s)"
    using wait_ready_frame by blast
  obtain s2 where s2: "wait_ready (command s1 CMD_SW_RESET None) = Some s2"
      "attrs s2 = attrs (command s1 CMD_SW_RESET None)"
    using wait_ready_frame by blast
  show ?thesis using s1 s2 by (simp add: power_on_sequence_def)
qed

lemma load_lut_frame: "\<exists>s'. load_lut s = Some s' \<and> attrs s' = attrs s"
  using wait_ready_frame [of "command (command s CMD_LOAD_LUT (Some (Ints [0xB1]))) CMD_ACTIVATE_DISPLAY None"]
  by (auto simp add: load_lut_def Let_def)

lemma init_frame: "\<exists>s'. init s = Some s' \<and> attrs s' = attrs s"
proof -
  obtain s1 where s1: "power_on_sequence s = Some s1" "attrs s1 = attrs s"
    using power_on_sequence_frame by blast
  obtain s2 where s2: "load_lut (configure_ram s1) = Some s2" "attrs s2 = attrs (configure_ram s1)"
    using load_lut_frame by blast
  obtain s3 where s3: "wait_ready s2 = Some s3" "attrs s3 = attrs s2"
    using wait_ready_frame by blast
  show ?thesis using s1 s2 s3 by (simp add: init_def)
qed

lemma buffer_attrs: "attrs s' = attrs s \<Longrightarrow> buffer s' = buffer s \<and> red_buffer s' = red_buffer s"
  by (simp add: attrs_def)

lemma show_op_frame:
  "\<exists>s'. show_op s = Some s' \<and> attrs s' = attrs s \<and>
     spi s' = spi s
       @ command_frames CMD_SET_RAM_X_COUNTER (Some (Ints [0x00]))
       @ command_frames CMD_SET_RAM_Y_COUNTER (Some (Ints [0x00, 0x00]))
       @ command_frames CMD_WRITE_RAM_BW (Some (Bytes (buffer s)))
       @ command_frames CMD_SET_RAM_X_COUNTER (Some (Ints [0x00]))
       @ command_frames CMD_SET_RAM_Y_COUNTER (Some (Ints [0x00, 0x00]))
       @ command_frames CMD_WRITE_RAM_RED (Some (Bytes (red_buffer s)))
       @ command_frames CMD_SOFT_START (Some (Ints [0xD7, 0xD6, 0x9D]))
       @ command_frames CMD_DISPLAY_UPDATE (Some (Ints [UPDATE_MODE_FULL]))
       @ command_frames CMD_MASTER_ACTIVATE None"
proof -
  define s1 where "s1 = reset_ram_address s"
  define s2 where "s2 = command s1 CMD_WRITE_RAM_BW (Some (Bytes (buffer s1)))"
  define s3 where "s3 = reset_ram_address s2"
  define s4 where "s4 = command s3 CMD_WRITE_RAM_RED (Some (Bytes (red_buffer s3)))"
  define s5 where "s5 = command s4 CMD_SOFT_START (Some (Ints [0xD7, 0xD6, 0x9D]))"
  define s6 where "s6 = command s5 CMD_DISPLAY_UPDATE (Some (Ints [UPDATE_MODE_FULL]))"
  define s7 where "s7 = command s6 CMD_MASTER_ACTIVATE None"
  have b1: "buffer s1 = buffer s" unfolding s1_def by (rule buffer_attrs [THEN conjunct1]) simp
  have a3: "attrs s3 = attrs s" by (simp add: s3_def s2_def s1_def)
  then have b3: "red_buffer s3 = red_buffer s" by (rule buffer_attrs [THEN conjunct2])
  have a7: "attrs s7 = attrs s" by (simp add: s7_def s6_def s5_def s4_def a3)
  obtain s' where s': "wait_ready s7 = Some s'" "attrs s' = attrs s7" "spi s' = spi s7"
    using wait_ready_frame by blast
  have "show_op s = Some s'"
    using s'(1) by (simp add: show_op_def Let_def s1_def s2_def s3_def s4_def s5_def s6_def s7_def)
  moreover have "spi s7 = spi s
       @ command_frames CMD_SET_RAM_X_COUNTER (Some (Ints [0x00]))
       @ command_frames CMD_SET_RAM_Y_COUNTER (Some (Ints [0x00, 0x00]))
       @ command_frames CMD_WRITE_RAM_BW (Some (Bytes (buffer s)))
       @ command_frames CMD_SET_RAM_X_COUNTER (Some (Ints [0x00]))
       @ command_frames CMD_SET_RAM_Y_COUNTER (Some (Ints [0x00, 0x00]))
       @ command_frames CMD_WRITE_RAM_RED (Some (Bytes (red_buffer s)))
       @ command_frames CMD_SOFT_START (Some (Ints [0xD7, 0xD6, 0x9D]))
       @ command_frames CMD_DISPLAY_UPDATE (Some (Ints [UPDATE_MODE_FULL]))
       @ command_frames CMD_MASTER_ACTIVATE None"
    unfolding s7_def s6_def s5_def s4_def b3 by (simp add: s3_def s2_def b1) (simp add: s1_def)
  ultimately show ?thesis using s'(2,3) a7 by simp
qed

subsection \<open>Writing one pixel\<close>

lemma bit_mask_nonzero: "0 \<le> k \<Longrightarrow> k < 8 \<Longrightarrow> bit_mask k \<noteq> 0"
proof -
  assume "0 \<le> k" "k < 8"
  then have "k = 0 \<or> k = 1 \<or> k = 2 \<or> k = 3 \<or> k = 4 \<or> k = 5 \<or> k = 6 \<or> k = 7" by arith
  then show ?thesis by (auto simp add: bit_mask_def)
qed

lemma or_and_mask: "((b :: byte) OR m) AND m = m"
  by (simp add: bit_eq_iff bit_and_iff bit_or_iff)

lemma and_not_and_mask: "((b :: byte) AND NOT m) AND m = 0"
  by (simp add: bit_eq_iff bit_and_iff bit_not_iff)





lemma ior_item_inside:
  "0 \<le> i \<Longrightarrow> i < int (length buf) \<Longrightarrow>
     ior_item buf i m = Inr (buf[nat i := buf ! nat i OR m])"
  by (simp add: ior_item_def getitem_def setitem_def norm_index_def)

lemma iand_not_item_inside:
  "0 \<le> i \<Longrightarrow> i < int (length buf) \<Longrightarrow>
     iand_not_item buf i m = Inr (buf[nat i := buf ! nat i AND NOT m])"
  by (simp add: iand_not_item_def getitem_def setitem_def norm_index_def)

lemma item_outside:
  "0 \<le> i \<Longrightarrow> int (length buf) \<le> i \<Longrightarrow>
     ior_item buf i m = Inl IndexError \<and> iand_not_item buf i m = Inl IndexError"
  by (simp add: ior_item_def iand_not_item_def getitem_def setitem_def norm_index_def)

lemma hw_coordinates_nonneg:
  assumes "0 \<le> x" "x < width s" "0 \<le> y" "y < height s"
  shows "0 \<le> fst (hw_coordinates s x y) \<and> 0 \<le> snd (hw_coordinates s x y)"
  using assms by (simp add: hw_coordinates_def)

lemma map_coordinates_nonneg:
  assumes "0 \<le> x" "x < width s" "0 \<le> y" "y < height s"
  shows "0 \<le> fst (map_coordinates s x y) \<and> 0 \<le> snd (map_coordinates s x y)
         \<and> snd (map_coordinates s x y) < 8"
proof -
  obtain hx hy where h: "hw_coordinates s x y = (hx, hy)" by (cases "hw_coordinates s x y")
  then have "0 \<le> hx" "0 \<le> hy" using hw_coordinates_nonneg [OF assms] by simp_all
  moreover have "0 \<le> width s" using assms by simp
  ultimately have "0 \<le> hy * width s + hx" by simp
  then have "0 \<le> (hy * width s + hx) div 8" by simp
  then show ?thesis by (simp add: map_coordinates_def h)
qed

text \<open>Setting or clearing one in-bounds pixel of a plane whose byte exists.\<close>

lemma set_pixel_buffer_inside:
  assumes "0 \<le> x" "x < width s" "0 \<le> y" "y < height s"
    and "fst (map_coordinates s x y) < int (length buf)"
  shows "\<exists>buf'. set_pixel_buffer s x y buf val = Inr buf' \<and> length buf' = length buf
           \<and> plane_bit buf' (map_coordinates s x y) = val"
proof -
  obtain i k where ik: "map_coordinates s x y = (i, k)" by (cases "map_coordinates s x y")
  have i: "0 \<le> i" "i < int (length buf)" and k: "0 \<le> k" "k < 8"
    using map_coordinates_nonneg [OF assms(1-4)] assms(5) by (simp_all add: ik)
  have n: "nat i < length buf" using i by simp
  show ?thesis
  proof (cases val)
    case True
    then have "set_pixel_buffer s x y buf val = Inr (buf[nat i := buf ! nat i OR bit_mask k])"
      using assms(1-4) i by (simp add: set_pixel_buffer_def ik ior_item_inside)
    then show ?thesis
      using True n bit_mask_nonzero [OF k] by (simp add: plane_bit_def ik or_and_mask)
  next
    case False
    then have "set_pixel_buffer s x y buf val = Inr (buf[nat i := buf ! nat i AND NOT (bit_mask k)])"
      using assms(1-4) i by (simp add: set_pixel_buffer_def ik iand_not_item_inside)
    then show ?thesis
      using False n by (simp add: plane_bit_def ik and_not_and_mask)
  qed
qed

lemma map_coordinates_buffer_update [simp]:
  "map_coordinates (s\<lparr>buffer := b\<rparr>) x y = map_coordinates s x y"
  "map_coordinates (s\<lparr>red_buffer := b\<rparr>) x y = map_coordinates s x y"
  by (simp_all add: map_coordinates_def hw_coordinates_def)

lemma set_pixel_buffer_update [simp]:
  "set_pixel_buffer (s\<lparr>buffer := b\<rparr>) x y buf val = set_pixel_buffer s x y buf val"
  "set_pixel_buffer (s\<lparr>red_buffer := b\<rparr>) x y buf val = set_pixel_buffer s x y buf val"
  by (simp_all add: set_pixel_buffer_def)

text \<open>Both planes after one successful \<open>pixel\<close>-style pair of writes.\<close>

lemma set_both_inside:
  assumes "0 \<le> x" "x < width s" "0 \<le> y" "y < height s"
    and "fst (map_coordinates s x y) < int (length (buffer s))"
    and "length (red_buffer s) = length (buffer s)"
  shows "\<exists>s'. and_then (set_main x y v1 s) (set_red x y v2) = (None, s')
           \<and> plane_bit (buffer s') (map_coordinates s x y) = v1
           \<and> plane_bit (red_buffer s') (map_coordinates s x y) = v2
           \<and> length (buffer s') = length (buffer s)
           \<and> length (red_buffer s') = length (red_buffer s)"
proof -
  obtain b where b: "set_pixel_buffer s x y (buffer s) v1 = Inr b" "length b = length (buffer s)"
      "plane_bit b (map_coordinates s x y) = v1"
    using set_pixel_buffer_inside [OF assms(1-5)] by blast
  obtain r where r: "set_pixel_buffer s x y (red_buffer s) v2 = Inr r"
      "length r = length (red_buffer s)" "plane_bit r (map_coordinates s x y) = v2"
    using set_pixel_buffer_inside [OF assms(1-4), of "red_buffer s"] assms(5,6) by auto
  have "and_then (set_main x y v1 s) (set_red x y v2) = (None, s\<lparr>buffer := b, red_buffer := r\<rparr>)"
    using b(1) r(1) by (simp add: set_main_def set_red_def)
  then show ?thesis using b r by simp
qed

subsection \<open>Geometry\<close>

lemma new_ssd1681_fields [simp]:
  "width (new_ssd1681 b w h ori) = w"
  "height (new_ssd1681 b w h ori) = h"
  "orientation (new_ssd1681 b w h ori) = ori"
  "buffer_size (new_ssd1681 b w h ori) = w * h div 8"
  "buffer (new_ssd1681 b w h ori) = replicate (nat (w * h div 8)) 0xFF"
  "red_buffer (new_ssd1681 b w h ori) = replicate (nat (w * h div 8)) 0x00"
  "busy (new_ssd1681 b w h ori) = busy b"
  "ticks (new_ssd1681 b w h ori) = ticks b"
  "spi (new_ssd1681 b w h ori) = spi b"
  by (simp_all add: new_ssd1681_def init_pins_def)

lemma hw_coordinates_grid:
  assumes "(x, y) \<in> grid s" "quarter_turn s \<longrightarrow> width s = height s"
  shows "hw_coordinates s x y \<in> grid s"
  using assms by (auto simp add: grid_def hw_coordinates_def quarter_turn_def)

lemma byte_index_bound:
  assumes "0 \<le> hx" "hx < w" "0 \<le> hy" "hy < h" "8 dvd (w :: int)"
  shows "(hy * w + hx) div 8 < w * h div 8"
proof -
  have "hy * w \<le> (h - 1) * w"
    using assms by (intro mult_right_mono) simp_all
  then have "hy * w + hx < h * w" using assms by (simp add: algebra_simps)
  moreover obtain q where q: "w = 8 * q" using assms(5) by (elim dvdE)
  ultimately have "hy * w + hx < 8 * (q * h)" by (simp add: algebra_simps)
  then have "(hy * w + hx) div 8 < q * h" by simp
  then show ?thesis by (simp add: q)
qed

lemma map_coordinates_in_range:
  assumes "0 \<le> x" "x < width s" "0 \<le> y" "y < height s" "geometry_ok s"
  shows "fst (map_coordinates s x y) < width s * height s div 8"
proof -
  obtain hx hy where h: "hw_coordinates s x y = (hx, hy)" by (cases "hw_coordinates s x y")
  have "(x, y) \<in> grid s" using assms by (simp add: grid_def)
  then have "(hx, hy) \<in> grid s"
    using hw_coordinates_grid [of x y s] assms(5) h by (simp add: geometry_ok_def)
  then have "(hy * width s + hx) div 8 < width s * height s div 8"
    using assms(5) by (intro byte_index_bound) (simp_all add: grid_def geometry_ok_def)
  then show ?thesis by (simp add: map_coordinates_def h)
qed

subsection \<open>Drawing keeps the shape of the object\<close>

lemma and_then_assoc:
  "and_then (and_then r f) g = and_then r (\<lambda>s. and_then (f s) g)"
  by (cases r; cases "fst r") (simp_all add: and_then_def)

lemma for_each_append:
  "for_each (xs @ ys) body s = and_then (for_each xs body s) (for_each ys body)"
proof (induction xs arbitrary: s)
  case Nil
  show ?case by simp
next
  case (Cons i xs)
  have "for_each (xs @ ys) body = (\<lambda>s. and_then (for_each xs body s) (for_each ys body))"
    by (rule ext) (rule Cons.IH)
  then show ?case by (simp add: and_then_assoc)
qed














subsection \<open>Filling a plane\<close>

lemma fill_step:
  "n < length b \<Longrightarrow> (replicate n v @ drop n b)[n := v] = replicate (Suc n) v @ drop (Suc n) b"
  by (simp add: list_update_append replicate_append_same flip: Cons_nth_drop_Suc)

lemma fill_main:
  "n \<le> length (buffer s) \<Longrightarrow>
     for_each (map int [0..<n]) (store_main v) s
       = (None, s\<lparr>buffer := replicate n v @ drop n (buffer s)\<rparr>)"
proof (induction n)
  case 0
  show ?case by simp
next
  case (Suc n)
  then have n: "n < length (buffer s)" by simp
  have "store_main v (int n) (s\<lparr>buffer := replicate n v @ drop n (buffer s)\<rparr>)
        = (None, s\<lparr>buffer := replicate (Suc n) v @ drop (Suc n) (buffer s)\<rparr>)"
    using n by (simp add: store_main_def setitem_def norm_index_def fill_step)
  then show ?case using Suc.IH n by (simp add: for_each_append)
qed

lemma fill_red:
  "n \<le> length (red_buffer s) \<Longrightarrow>
     for_each (map int [0..<n]) (store_red v) s
       = (None, s\<lparr>red_buffer := replicate n v @ drop n (red_buffer s)\<rparr>)"
proof (induction n)
  case 0
  show ?case by simp
next
  case (Suc n)
  then have n: "n < length (red_buffer s)" by simp
  have "store_red v (int n) (s\<lparr>red_buffer := replicate n v @ drop n (red_buffer s)\<rparr>)
        = (None, s\<lparr>red_buffer := replicate (Suc n) v @ drop (Suc n) (red_buffer s)\<rparr>)"
    using n by (simp add: store_red_def setitem_def norm_index_def fill_step)
  then show ?case using Suc.IH n by (simp add: for_each_append)
qed

lemma clear_result:
  assumes "length (buffer s) = nat (buffer_size s)" "length (red_buffer s) = nat (buffer_size s)"
  shows "clear s = (None, s\<lparr>buffer := replicate (nat (buffer_size s)) 0xFF,
                            red_buffer := replicate (nat (buffer_size s)) 0x00\<rparr>)"
  using assms by (simp add: clear_def py_range_def fill_main fill_red)

subsection \<open>The text loop\<close>


lemma and_then_return: "and_then r (\<lambda>s. (None, s)) = r"
  by (cases r; cases "fst r") (auto simp add: and_then_def)







subsection \<open>The end-to-end scenario\<close>

lemma ram_data_append:
  "ram_data cmd ys = Some d \<Longrightarrow> ram_data cmd (xs @ ys) = Some d"
proof (induction xs)
  case Nil
  then show ?case by simp
next
  case (Cons x xs)
  then have "ram_data cmd (xs @ ys) = Some d" by simp
  moreover from this obtain g rest where "xs @ ys = g # rest"
    by (cases "xs @ ys") auto
  ultimately show ?case by simp
qed

lemma show_frames_bw:
  "ram_data CMD_WRITE_RAM_BW
     (command_frames CMD_SET_RAM_X_COUNTER (Some (Ints [0x00]))
       @ command_frames CMD_SET_RAM_Y_COUNTER (Some (Ints [0x00, 0x00]))
       @ command_frames CMD_WRITE_RAM_BW (Some (Bytes bw))
       @ command_frames CMD_SET_RAM_X_COUNTER (Some (Ints [0x00]))
       @ command_frames CMD_SET_RAM_Y_COUNTER (Some (Ints [0x00, 0x00]))
       @ command_frames CMD_WRITE_RAM_RED (Some (Bytes red))
       @ command_frames CMD_SOFT_START (Some (Ints [0xD7, 0xD6, 0x9D]))
       @ command_frames CMD_DISPLAY_UPDATE (Some (Ints [UPDATE_MODE_FULL]))
       @ command_frames CMD_MASTER_ACTIVATE None) = Some bw"
  by (simp add: command_frames_def payload_bytes_def bytearray_def
      CMD_SET_RAM_X_COUNTER_def CMD_SET_RAM_Y_COUNTER_def CMD_WRITE_RAM_BW_def
      CMD_WRITE_RAM_RED_def CMD_SOFT_START_def CMD_DISPLAY_UPDATE_def CMD_MASTER_ACTIVATE_def
      UPDATE_MODE_FULL_def)

lemma show_frames_red:
  "ram_data CMD_WRITE_RAM_RED
     (command_frames CMD_SET_RAM_X_COUNTER (Some (Ints [0x00]))
       @ command_frames CMD_SET_RAM_Y_COUNTER (Some (Ints [0x00, 0x00]))
       @ command_frames CMD_WRITE_RAM_BW (Some (Bytes bw))
       @ command_frames CMD_SET_RAM_X_COUNTER (Some (Ints [0x00]))
       @ command_frames CMD_SET_RAM_Y_COUNTER (Some (Ints [0x00, 0x00]))
       @ command_frames CMD_WRITE_RAM_RED (Some (Bytes red))
       @ command_frames CMD_SOFT_START (Some (Ints [0xD7, 0xD6, 0x9D]))
       @ command_frames CMD_DISPLAY_UPDATE (Some (Ints [UPDATE_MODE_FULL]))
       @ command_frames CMD_MASTER_ACTIVATE None) = Some red"
  by (simp add: command_frames_def payload_bytes_def bytearray_def
      CMD_SET_RAM_X_COUNTER_def CMD_SET_RAM_Y_COUNTER_def CMD_WRITE_RAM_BW_def
      CMD_WRITE_RAM_RED_def CMD_SOFT_START_def CMD_DISPLAY_UPDATE_def CMD_MASTER_ACTIVATE_def
      UPDATE_MODE_FULL_def)

lemma show_op_transmits:
  "\<exists>s'. show_op s = Some s' \<and> ram_data CMD_WRITE_RAM_BW (spi s') = Some (buffer s)
        \<and> ram_data CMD_WRITE_RAM_RED (spi s') = Some (red_buffer s)
        \<and> attrs s' = attrs s"
proof -
  obtain s' where s': "show_op s = Some s'" "attrs s' = attrs s"
    "spi s' = spi s
       @ command_frames CMD_SET_RAM_X_COUNTER (Some (Ints [0x00]))
       @ command_frames CMD_SET_RAM_Y_COUNTER (Some (Ints [0x00, 0x00]))
       @ command_frames CMD_WRITE_RAM_BW (Some (Bytes (buffer s)))
       @ command_frames CMD_SET_RAM_X_COUNTER (Some (Ints [0x00]))
       @ command_frames CMD_SET_RAM_Y_COUNTER (Some (Ints [0x00, 0x00]))
       @ command_frames CMD_WRITE_RAM_RED (Some (Bytes (red_buffer s)))
       @ command_frames CMD_SOFT_START (Some (Ints [0xD7, 0xD6, 0x9D]))
       @ command_frames CMD_DISPLAY_UPDATE (Some (Ints [UPDATE_MODE_FULL]))
       @ command_frames CMD_MASTER_ACTIVATE None"
    using show_op_frame [of s] by blast
  have "ram_data CMD_WRITE_RAM_BW (spi s') = Some (buffer s)"
    unfolding s'(3) by (rule ram_data_append) (rule show_frames_bw)
  moreover have "ram_data CMD_WRITE_RAM_RED (spi s') = Some (red_buffer s)"
    unfolding s'(3) by (rule ram_data_append) (rule show_frames_red)
  ultimately show ?thesis using s'(1,2) by blast
qed

lemma replicate_update_same: "(replicate n x)[i := x] = replicate n x"
proof (rule nth_equalityI)
  show "length ((replicate n x)[i := x]) = length (replicate n x)" by simp
next
  fix j assume "j < length ((replicate n x)[i := x])"
  then have "j < n" by simp
  then show "(replicate n x)[i := x] ! j = replicate n x ! j"
    by (cases "j = i") simp_all
qed

text \<open>The object the scenario hands to \<open>show\<close>.\<close>

lemma scenario_drawn:
  assumes "attrs s1 = attrs (new_ssd1681 b 200 200 ORIENTATION_0)"
  shows "\<exists>s3. and_then (clear s1) (\<lambda>s2. pixel s2 0 0 COLOR_RED) = (None, s3)
           \<and> buffer s3 = replicate 5000 0xFF
           \<and> red_buffer s3 = (replicate 5000 0x00)[4999 := 0x01]
           \<and> map_coordinates s3 0 0 = (4999, 7)"
proof -
  have a: "width s1 = 200" "height s1 = 200" "orientation s1 = ORIENTATION_0"
    "buffer_size s1 = 5000" "length (buffer s1) = 5000" "length (red_buffer s1) = 5000"
    using assms by (simp_all add: attrs_def)
  define s2 where "s2 = s1\<lparr>buffer := replicate 5000 0xFF, red_buffer := replicate 5000 0x00\<rparr>"
  have c: "clear s1 = (None, s2)"
    using clear_result [of s1] a by (simp add: s2_def)
  have m: "map_coordinates s2 0 0 = (4999, 7)"
    by (simp add: s2_def map_coordinates_def hw_coordinates_def a)
  have k: "bit_mask 7 = 1" by (simp add: bit_mask_def)
  have a2: "width s2 = 200" "height s2 = 200" "buffer s2 = replicate 5000 0xFF"
    "red_buffer s2 = replicate 5000 0x00"
    by (simp_all add: s2_def a)
  have "set_pixel_buffer s2 0 0 (replicate 5000 0xFF) True = Inr (replicate 5000 0xFF)"
    by (simp add: set_pixel_buffer_def m ior_item_inside k a2 replicate_update_same)
  moreover have "set_pixel_buffer s2 0 0 (replicate 5000 0x00) True
      = Inr ((replicate 5000 0x00)[4999 := 0x01])"
    by (simp add: set_pixel_buffer_def m ior_item_inside k a2)
  ultimately have "pixel s2 0 0 COLOR_RED
      = (None, s2\<lparr>red_buffer := (replicate 5000 0x00)[4999 := 0x01]\<rparr>)"
    by (simp add: pixel_def COLOR_RED_def COLOR_WHITE_def COLOR_BLACK_def
        set_main_def set_red_def a2)
  then show ?thesis using c m by (simp add: s2_def)
qed

lemma scenario_result:
  "\<exists>s. scenario b = Some (None, s)
       \<and> ram_data CMD_WRITE_RAM_BW (spi s) = Some (replicate 5000 0xFF)
       \<and> ram_data CMD_WRITE_RAM_RED (spi s) = Some ((replicate 5000 0x00)[4999 := 0x01])
       \<and> map_coordinates s 0 0 = (4999, 7)"
proof -
  obtain s1 where s1: "init (new_ssd1681 b 200 200 ORIENTATION_0) = Some s1"
      "attrs s1 = attrs (new_ssd1681 b 200 200 ORIENTATION_0)"
    using init_frame by blast
  obtain s3 where s3: "and_then (clear s1) (\<lambda>s2. pixel s2 0 0 COLOR_RED) = (None, s3)"
      "buffer s3 = replicate 5000 0xFF" "red_buffer s3 = (replicate 5000 0x00)[4999 := 0x01]"
      "map_coordinates s3 0 0 = (4999, 7)"
    using scenario_drawn [OF s1(2)] by blast
  obtain s where s: "show_op s3 = Some s" "ram_data CMD_WRITE_RAM_BW (spi s) = Some (buffer s3)"
      "ram_data CMD_WRITE_RAM_RED (spi s) = Some (red_buffer s3)" "attrs s = attrs s3"
    using show_op_transmits [of s3] by blast
  have "map_coordinates s 0 0 = map_coordinates s3 0 0"
    using s(4) by (simp add: attrs_def map_coordinates_def hw_coordinates_def)
  moreover have "scenario b = Some (None, s)"
    by (simp add: scenario_def s1(1) s3(1) s(1))
  ultimately show ?thesis using s(2,3) s3(2,3,4) by simp
qed

section \<open>The claims about single pixels\<close>

text \<open>
  Claim C1 (as amended). For an in-bounds \<open>(x, y)\<close> whose mapped byte lies inside the
  two equally long planes, \<open>pixel\<close> returns without raising and the bit at the mapped
  byte/bit position reads: black, main 0 and red 0; red, main 1 and red 1; white, main 1
  and red 0. As stated, without the condition on the byte index, the claim fails: on a
  16x8 panel in \<open>ORIENTATION_90\<close> the in-bounds pixel \<open>(0, 0)\<close> maps to byte 30 of a
  16-byte plane and \<open>pixel\<close> raises \<open>IndexError\<close>.
\<close>

theorem pixel_round_trip:
  assumes "0 \<le> x" "x < width s" "0 \<le> y" "y < height s"
    and "fst (map_coordinates s x y) < int (length (buffer s))"
    and "length (red_buffer s) = length (buffer s)"
  shows "\<exists>sb sr sw.
      pixel s x y COLOR_BLACK = (None, sb)
      \<and> \<not> plane_bit (buffer sb) (map_coordinates s x y)
      \<and> \<not> plane_bit (red_buffer sb) (map_coordinates s x y)
      \<and> pixel s x y COLOR_RED = (None, sr)
      \<and> plane_bit (buffer sr) (map_coordinates s x y)
      \<and> plane_bit (red_buffer sr) (map_coordinates s x y)
      \<and> pixel s x y COLOR_WHITE = (None, sw)
      \<and> plane_bit (buffer sw) (map_coordinates s x y)
      \<and> \<not> plane_bit (red_buffer sw) (map_coordinates s x y)"
proof -
  obtain sb where sb: "and_then (set_main x y False s) (set_red x y False) = (None, sb)"
      "\<not> plane_bit (buffer sb) (map_coordinates s x y)"
      "\<not> plane_bit (red_buffer sb) (map_coordinates s x y)"
    using set_both_inside [OF assms, of False False] by auto
  obtain sr where sr: "and_then (set_main x y True s) (set_red x y True) = (None, sr)"
      "plane_bit (buffer sr) (map_coordinates s x y)"
      "plane_bit (red_buffer sr) (map_coordinates s x y)"
    using set_both_inside [OF assms, of True True] by auto
  obtain sw where sw: "and_then (set_main x y True s) (set_red x y False) = (None, sw)"
      "plane_bit (buffer sw) (map_coordinates s x y)"
      "\<not> plane_bit (red_buffer sw) (map_coordinates s x y)"
    using set_both_inside [OF assms, of True False] by auto
  have "pixel s x y COLOR_BLACK = (None, sb)" "pixel s x y COLOR_RED = (None, sr)"
    "pixel s x y COLOR_WHITE = (None, sw)"
    using sb(1) sr(1) sw(1)
    by (simp_all add: pixel_def COLOR_BLACK_def COLOR_RED_def COLOR_WHITE_def)
  then show ?thesis using sb(2,3) sr(2,3) sw(2,3) by blast
qed

lemma panel_200_origin: "map_coordinates panel_200 0 0 = (4999, 7)"
  by (simp add: panel_200_def map_coordinates_def hw_coordinates_def ORIENTATION_0_def)

theorem pixel_round_trip_witness:
  "\<exists>sb sr sw.
      pixel panel_200 0 0 COLOR_BLACK = (None, sb)
      \<and> \<not> plane_bit (buffer sb) (4999, 7) \<and> \<not> plane_bit (red_buffer sb) (4999, 7)
      \<and> pixel panel_200 0 0 COLOR_RED = (None, sr)
      \<and> plane_bit (buffer sr) (4999, 7) \<and> plane_bit (red_buffer sr) (4999, 7)
      \<and> pixel panel_200 0 0 COLOR_WHITE = (None, sw)
      \<and> plane_bit (buffer sw) (4999, 7) \<and> \<not> plane_bit (red_buffer sw) (4999, 7)"
proof -
  have "fst (map_coordinates panel_200 0 0) < int (length (buffer panel_200))"
    "length (red_buffer panel_200) = length (buffer panel_200)"
    "(0::int) < width panel_200" "(0::int) < height panel_200"
    by (simp_all add: panel_200_origin) (simp_all add: panel_200_def)
  from pixel_round_trip [OF order_refl this(3) order_refl this(4) this(1,2)]
  show ?thesis by (simp add: panel_200_origin)
qed

theorem pixel_round_trip_counterexample:
  "pixel (new_ssd1681 idle_board 16 8 ORIENTATION_90) 0 0 COLOR_BLACK
     = (Some IndexError, new_ssd1681 idle_board 16 8 ORIENTATION_90)"
proof -
  let ?s = "new_ssd1681 idle_board 16 8 ORIENTATION_90"
  have "map_coordinates ?s 0 0 = (30, 0)"
    by (simp add: map_coordinates_def hw_coordinates_def ORIENTATION_90_def ORIENTATION_0_def)
  then have "set_pixel_buffer ?s 0 0 (buffer ?s) False = Inl IndexError"
    by (simp add: set_pixel_buffer_def item_outside)
  then show ?thesis
    by (simp add: pixel_def COLOR_BLACK_def COLOR_WHITE_def set_main_def)
qed



text \<open>
  Claim C10. For every \<open>(x, y)\<close> and every colour other than \<open>COLOR_WHITE\<close>,
  \<open>COLOR_BLACK\<close> and \<open>COLOR_RED\<close>, \<open>pixel\<close> raises nothing and returns the object as
  it was.
\<close>

theorem pixel_unknown_color_noop:
  "color \<noteq> COLOR_WHITE \<Longrightarrow> color \<noteq> COLOR_BLACK \<Longrightarrow> color \<noteq> COLOR_RED \<Longrightarrow>
     pixel s x y color = (None, s)"
  by (simp add: pixel_def)

theorem pixel_unknown_color_noop_witness:
  "pixel panel_200 0 0 3 = (None, panel_200) \<and> pixel panel_200 (- 5) 700 (- 1) = (None, panel_200)"
  using pixel_unknown_color_noop [of 3 panel_200 0 0]
    pixel_unknown_color_noop [of "- 1" panel_200 "- 5" 700]
  by (simp add: COLOR_WHITE_def COLOR_BLACK_def COLOR_RED_def)

text \<open>
  Claim C8. On a panel that meets the geometry assumptions (width a multiple of 8, square
  for the quarter turns), every in-bounds \<open>(x, y)\<close> maps to a byte index in
  \<open>[0, width * height div 8)\<close> and a bit index in \<open>[0, 8)\<close>, and \<open>_set_pixel_buffer\<close> on
  a plane of that many bytes returns without \<open>IndexError\<close>.
\<close>

theorem map_coordinates_safe:
  assumes "0 \<le> x" "x < width s" "0 \<le> y" "y < height s" "geometry_ok s"
    and "length buf = nat (width s * height s div 8)"
  shows "0 \<le> fst (map_coordinates s x y)
       \<and> fst (map_coordinates s x y) < width s * height s div 8
       \<and> 0 \<le> snd (map_coordinates s x y) \<and> snd (map_coordinates s x y) < 8
       \<and> (\<exists>buf'. set_pixel_buffer s x y buf val = Inr buf' \<and> length buf' = length buf)"
proof -
  have r: "fst (map_coordinates s x y) < width s * height s div 8"
    using assms(1-5) by (rule map_coordinates_in_range)
  then have "fst (map_coordinates s x y) < int (length buf)"
    using assms(6) by simp
  from set_pixel_buffer_inside [OF assms(1-4) this, of val]
  show ?thesis using r map_coordinates_nonneg [OF assms(1-4)] by blast
qed

theorem map_coordinates_safe_witness:
  "fst (map_coordinates panel_200 0 0) = 4999 \<and> (4999::int) < 200 * 200 div 8
   \<and> (\<exists>buf'. set_pixel_buffer panel_200 0 0 (buffer panel_200) True = Inr buf'
        \<and> length buf' = 5000)"
proof -
  have g: "geometry_ok panel_200"
    by (simp add: geometry_ok_def quarter_turn_def panel_200_def
        ORIENTATION_0_def ORIENTATION_90_def ORIENTATION_270_def)
  have w: "(0::int) < width panel_200" "(0::int) < height panel_200"
    and l: "length (buffer panel_200) = nat (width panel_200 * height panel_200 div 8)"
    by (simp_all add: panel_200_def)
  from map_coordinates_safe [OF order_refl w(1) order_refl w(2) g l, of True]
  show ?thesis by (simp add: panel_200_origin) (simp add: panel_200_def)
qed

section \<open>The claims about the busy-wait and the orientation map\<close>

text \<open>
  Claim C9. Whatever the busy line does, \<open>_wait_busy\<close> returns (for every timeout up to
  half the tick period less one polling interval, the default 15000 ms among them): it
  has slept \<open>k\<close> times 50 ms, it saw the line asserted at each of the \<open>k\<close> earlier polls,
  it ran at most one polling interval past the timeout, it returns \<open>True\<close> only when it
  saw the line deasserted before the timeout, and it returns \<open>False\<close> when the line is
  asserted throughout the timeout window.
\<close>

theorem wait_busy_terminates:
  assumes "timeout_ms \<le> TICKS_PERIOD div 2 - 50"
  shows "\<exists>k. wait_busy s timeout_ms =
               Some (int (50 * k) < timeout_ms, s\<lparr>ticks := ticks s + 50 * k\<rparr>)
           \<and> (\<forall>j<k. busy s (ticks s + 50 * j))
           \<and> (k = 0 \<or> int (50 * k) < timeout_ms + 50)
           \<and> (int (50 * k) < timeout_ms \<longrightarrow> \<not> busy s (ticks s + 50 * k))
           \<and> ((\<forall>t. ticks s \<le> t \<and> int (t - ticks s) < timeout_ms \<longrightarrow> busy s t)
                \<longrightarrow> \<not> int (50 * k) < timeout_ms)"
proof -
  obtain k where k:
    "wait_busy s timeout_ms = Some (int (50 * k) < timeout_ms, s\<lparr>ticks := ticks s + 50 * k\<rparr>)"
    "\<forall>j<k. busy s (ticks s + 50 * j) \<and> int (50 * j) < timeout_ms"
    "\<not> (busy s (ticks s + 50 * k) \<and> int (50 * k) < timeout_ms)"
    using wait_busy_returns [OF assms] by blast
  have "k = 0 \<or> int (50 * k) < timeout_ms + 50"
    using k(2) by (cases k) auto
  moreover have "\<not> int (50 * k) < timeout_ms"
    if "\<forall>t. ticks s \<le> t \<and> int (t - ticks s) < timeout_ms \<longrightarrow> busy s t"
  proof
    assume lt: "int (50 * k) < timeout_ms"
    then have "busy s (ticks s + 50 * k)" using that by simp
    then show False using k(3) lt by simp
  qed
  ultimately show ?thesis using k by blast
qed

theorem wait_busy_terminates_witness:
  "wait_busy panel_stuck 15000 = Some (False, panel_stuck\<lparr>ticks := 15000\<rparr>)
   \<and> wait_busy panel_200 15000 = Some (True, panel_200\<lparr>ticks := 0\<rparr>)"
proof -
  have t: "(15000::int) \<le> TICKS_PERIOD div 2 - 50" by (simp add: TICKS_PERIOD_def)
  have b: "busy panel_stuck = (\<lambda>t. True)" "ticks panel_stuck = 0"
    "busy panel_200 = (\<lambda>t. False)" "ticks panel_200 = 0"
    by (simp_all add: panel_stuck_def stuck_board_def panel_200_def idle_board_def)
  obtain k where k: "wait_busy panel_stuck 15000 =
        Some (int (50 * k) < 15000, panel_stuck\<lparr>ticks := ticks panel_stuck + 50 * k\<rparr>)"
      "k = 0 \<or> int (50 * k) < 15000 + 50" "\<not> int (50 * k) < 15000"
    using wait_busy_terminates [OF t, of panel_stuck] by (auto simp add: b)
  then have "k = 300" by auto
  then have 1: "wait_busy panel_stuck 15000 = Some (False, panel_stuck\<lparr>ticks := 15000\<rparr>)"
    using k(1) by (simp add: b)
  obtain j where j: "wait_busy panel_200 15000 =
        Some (int (50 * j) < 15000, panel_200\<lparr>ticks := ticks panel_200 + 50 * j\<rparr>)"
      "\<forall>i<j. busy panel_200 (ticks panel_200 + 50 * i)"
    using wait_busy_terminates [OF t, of panel_200] by blast
  then have "j = 0" by (cases j) (auto simp add: b)
  then have "wait_busy panel_200 15000 = Some (True, panel_200\<lparr>ticks := 0\<rparr>)"
    using j(1) by (simp add: b)
  then show ?thesis using 1 by simp
qed

lemma bij_half_turn:
  "bij_betw (\<lambda>(x, y). (w - 1 - x, h - 1 - y)) ({0..<w} \<times> {0..<h}) ({0..<w::int} \<times> {0..<h::int})"
  by (rule bij_betw_byWitness [where f' = "\<lambda>(x, y). (w - 1 - x, h - 1 - y)"]) auto

lemma bij_turn_left:
  "bij_betw (\<lambda>(x, y). (y, n - 1 - x)) ({0..<n} \<times> {0..<n}) ({0..<n::int} \<times> {0..<n})"
  by (rule bij_betw_byWitness [where f' = "\<lambda>(x, y). (n - 1 - y, x)"]) auto

lemma bij_turn_right:
  "bij_betw (\<lambda>(x, y). (n - 1 - y, x)) ({0..<n} \<times> {0..<n}) ({0..<n::int} \<times> {0..<n})"
  by (rule bij_betw_byWitness [where f' = "\<lambda>(x, y). (y, n - 1 - x)"]) auto

text \<open>
  Claim C3. For each of the four orientations (and the fallback), on a panel that is
  square when the orientation is a quarter turn, the map from logical \<open>(x, y)\<close> to
  physical \<open>(hw_x, hw_y)\<close> is a bijection of the grid \<open>[0, width) \<times> [0, height)\<close> onto
  itself: injective, and every physical cell is hit.
\<close>

theorem hw_coordinates_bijection:
  assumes "quarter_turn s \<longrightarrow> width s = height s"
  shows "bij_betw (\<lambda>(x, y). hw_coordinates s x y) (grid s) (grid s)"
proof -
  consider (r90) "orientation s = ORIENTATION_90"
    | (r180) "orientation s = ORIENTATION_180"
    | (r270) "orientation s = ORIENTATION_270"
    | (r0) "orientation s \<noteq> ORIENTATION_90" "orientation s \<noteq> ORIENTATION_180"
        "orientation s \<noteq> ORIENTATION_270"
    by blast
  then show ?thesis
  proof cases
    case r90
    then have "(\<lambda>(x, y). hw_coordinates s x y) = (\<lambda>(x, y). (y, height s - 1 - x))"
      using assms
      by (simp add: hw_coordinates_def fun_eq_iff quarter_turn_def ORIENTATION_0_def ORIENTATION_90_def)
    moreover have "grid s = {0..<height s} \<times> {0..<height s}"
      using assms r90 by (simp add: grid_def quarter_turn_def)
    ultimately show ?thesis by (simp add: bij_turn_left)
  next
    case r180
    then have "(\<lambda>(x, y). hw_coordinates s x y) = (\<lambda>p. p)"
      by (simp add: hw_coordinates_def fun_eq_iff ORIENTATION_0_def ORIENTATION_90_def
          ORIENTATION_180_def)
    then show ?thesis by (simp add: bij_betw_def)
  next
    case r270
    then have "(\<lambda>(x, y). hw_coordinates s x y) = (\<lambda>(x, y). (height s - 1 - y, x))"
      by (simp add: hw_coordinates_def fun_eq_iff ORIENTATION_0_def ORIENTATION_90_def
          ORIENTATION_180_def ORIENTATION_270_def)
    moreover have "grid s = {0..<height s} \<times> {0..<height s}"
      using assms r270 by (simp add: grid_def quarter_turn_def)
    ultimately show ?thesis by (simp add: bij_turn_right)
  next
    case r0
    then have "(\<lambda>(x, y). hw_coordinates s x y) = (\<lambda>(x, y). (width s - 1 - x, height s - 1 - y))"
      by (simp add: hw_coordinates_def fun_eq_iff)
    then show ?thesis by (simp add: grid_def bij_half_turn)
  qed
qed

theorem hw_coordinates_bijection_witness:
  "bij_betw (\<lambda>(x, y). hw_coordinates panel_turned x y) (grid panel_turned) (grid panel_turned)
   \<and> bij_betw (\<lambda>(x, y). hw_coordinates panel_200 x y) (grid panel_200) (grid panel_200)"
  using hw_coordinates_bijection [of panel_turned] hw_coordinates_bijection [of panel_200]
  by (simp add: panel_turned_def panel_200_def)

section \<open>The claims about the planes as a whole\<close>

text \<open>
  Claim C5. On a driver object whose planes have the length \<open>_buffer_size\<close> (as every
  object has: the constructor allocates them so and nothing resizes them), whatever the
  planes hold, \<open>clear\<close> returns without raising with every byte of the main plane
  \<open>0xFF\<close> and every byte of the red plane \<open>0x00\<close>; calling it twice gives the same
  object as calling it once.
\<close>

theorem clear_all_background:
  assumes "length (buffer s) = nat (buffer_size s)" "length (red_buffer s) = nat (buffer_size s)"
  shows "\<exists>s'. clear s = (None, s')
           \<and> buffer s' = replicate (length (buffer s)) 0xFF
           \<and> red_buffer s' = replicate (length (red_buffer s)) 0x00
           \<and> and_then (clear s) clear = clear s"
proof -
  let ?s' = "s\<lparr>buffer := replicate (nat (buffer_size s)) 0xFF,
               red_buffer := replicate (nat (buffer_size s)) 0x00\<rparr>"
  have 1: "clear s = (None, ?s')" using assms by (rule clear_result)
  have "clear ?s' = (None, ?s')" by (simp add: clear_result)
  then show ?thesis using 1 assms by simp
qed

theorem clear_all_background_witness:
  "\<exists>s'. clear (panel_200\<lparr>buffer := replicate 5000 0x5A, red_buffer := replicate 5000 0xC3\<rparr>)
            = (None, s')
      \<and> buffer s' = replicate 5000 0xFF \<and> red_buffer s' = replicate 5000 0x00
      \<and> and_then (clear (panel_200\<lparr>buffer := replicate 5000 0x5A, red_buffer := replicate 5000 0xC3\<rparr>)) clear
          = clear (panel_200\<lparr>buffer := replicate 5000 0x5A, red_buffer := replicate 5000 0xC3\<rparr>)"
  using clear_all_background
    [of "panel_200\<lparr>buffer := replicate 5000 0x5A, red_buffer := replicate 5000 0xC3\<rparr>"]
  by (simp add: panel_200_def)




section \<open>The claim about text\<close>



section \<open>The claim about the end-to-end scenario\<close>

text \<open>
  Claim C2 (as amended). On a 200x200 session in \<open>ORIENTATION_0\<close>, whatever the board
  does, \<open>init()\<close>, \<open>clear()\<close>, \<open>pixel(0, 0, COLOR_RED)\<close>, \<open>show()\<close> return without
  raising; \<open>(0, 0)\<close> maps to byte 4999, bit index 7 (mask \<open>0x01\<close>); the bytes written to
  the black/white RAM are \<open>0xFF\<close> in every byte, that bit included (red leaves the
  black/white bit at 1); the bytes written to the red RAM are \<open>0x00\<close> in every byte but
  byte 4999, which is \<open>0x01\<close>. As stated, with the black/white bit cleared to 0, the
  claim fails: that bit is transmitted as 1.
\<close>

theorem scenario_transmits:
  "scenario_bw b = Some (replicate 5000 0xFF)
   \<and> scenario_red b = Some ((replicate 5000 0x00)[4999 := 0x01])
   \<and> (\<exists>s. scenario b = Some (None, s) \<and> map_coordinates s 0 0 = (4999, 7))
   \<and> bit_mask 7 = 0x01"
proof -
  have "bit_mask 7 = 0x01" by (simp add: bit_mask_def)
  then show ?thesis
    using scenario_result [of b] by (auto simp add: scenario_bw_def scenario_red_def)
qed

theorem scenario_counterexample:
  "scenario_bw idle_board = Some (replicate 5000 0xFF)
   \<and> plane_bit (replicate 5000 0xFF) (4999, 7)"
proof -
  have "plane_bit (replicate 5000 0xFF) (4999, 7)"
    by (simp add: plane_bit_def bit_mask_def)
  then show ?thesis
    using scenario_result [of idle_board] by (auto simp add: scenario_bw_def)
qed

theorem scenario_transmits_witness:
  "scenario_bw stuck_board = Some (replicate 5000 0xFF)
   \<and> scenario_red stuck_board = Some ((replicate 5000 0x00)[4999 := 0x01])"
  using scenario_transmits [of stuck_board] by simp


end
